theory Spec2Isabelle
  imports Main
begin

section \<open>Data model\<close>

text \<open>
  Modelled from the spec: the \<^verbatim>\<open>Account\<close>, \<^verbatim>\<open>DiscordUser\<close> and
  \<^verbatim>\<open>CreateAccountRequest\<close> struct declarations are not among the source files. The
  fields are the ones the storage layer and the handlers read (\<^verbatim>\<open>account.FirstName\<close>,
  \<^verbatim>\<open>account.Number\<close>, \<^verbatim>\<open>user.Id\<close>, ...) and the ones section 3 of the specification
  lists. Integers are unbounded here; a timestamp is a number of seconds.
\<close>

record account =
  ID :: int
  FirstName :: string
  LastName :: string
  Number :: int
  Balance :: int
  CreatedAt :: int

record discord_user =
  Id :: string
  GlobalName :: string
  Avatar :: string

record create_account_request =
  ReqFirstName :: string
  ReqLastName :: string

section \<open>The token library, as far as the server calls it\<close>

text \<open>
  The server signs and parses tokens through \<^verbatim>\<open>github.com/golang-jwt/jwt/v4\<close>. The
  control flow of \<^verbatim>\<open>NewWithClaims\<close>, \<^verbatim>\<open>SignedString\<close>, \<^verbatim>\<open>ParseUnverified\<close> and
  \<^verbatim>\<open>Parse\<close> is written out below. What is left to the environment is the byte level:
  the base64url codec of a segment, the JSON codec of an object, and the keyed hash.
  A JSON object is an association list; JSON numbers are integers (the library decodes
  them as \<^verbatim>\<open>float64\<close>, which is exact up to \<open>2^53\<close>).
\<close>

datatype json_value = JNumber int | JString string

type_synonym json_object = "(string \<times> json_value) list"

datatype hash = SHA256 | SHA384 | SHA512

datatype signing_method =
    SigningMethodHMAC hash
  | SigningMethodRSA hash
  | SigningMethodRSAPSS hash
  | SigningMethodECDSA hash
  | SigningMethodEd25519
  | SigningMethodNone

fun Alg :: "signing_method \<Rightarrow> string" where
  "Alg (SigningMethodHMAC SHA256) = ''HS256''"
| "Alg (SigningMethodHMAC SHA384) = ''HS384''"
| "Alg (SigningMethodHMAC SHA512) = ''HS512''"
| "Alg (SigningMethodRSA SHA256) = ''RS256''"
| "Alg (SigningMethodRSA SHA384) = ''RS384''"
| "Alg (SigningMethodRSA SHA512) = ''RS512''"
| "Alg (SigningMethodRSAPSS SHA256) = ''PS256''"
| "Alg (SigningMethodRSAPSS SHA384) = ''PS384''"
| "Alg (SigningMethodRSAPSS SHA512) = ''PS512''"
| "Alg (SigningMethodECDSA SHA256) = ''ES256''"
| "Alg (SigningMethodECDSA SHA384) = ''ES384''"
| "Alg (SigningMethodECDSA SHA512) = ''ES512''"
| "Alg SigningMethodEd25519 = ''EdDSA''"
| "Alg SigningMethodNone = ''none''"

definition signingMethods :: "signing_method list" where
  "signingMethods =
     [SigningMethodHMAC SHA256, SigningMethodHMAC SHA384, SigningMethodHMAC SHA512,
      SigningMethodRSA SHA256, SigningMethodRSA SHA384, SigningMethodRSA SHA512,
      SigningMethodRSAPSS SHA256, SigningMethodRSAPSS SHA384, SigningMethodRSAPSS SHA512,
      SigningMethodECDSA SHA256, SigningMethodECDSA SHA384, SigningMethodECDSA SHA512,
      SigningMethodEd25519, SigningMethodNone]"

definition GetSigningMethod :: "string \<Rightarrow> signing_method option" where
  "GetSigningMethod alg = map_of (map (\<lambda>m. (Alg m, m)) signingMethods) alg"

fun isHMAC :: "signing_method \<Rightarrow> bool" where
  "isHMAC (SigningMethodHMAC h) = True"
| "isHMAC m = False"

datatype validation_flag =
    ValidationErrorMalformed
  | ValidationErrorUnverifiable
  | ValidationErrorSignatureInvalid
  | ValidationErrorExpired
  | ValidationErrorIssuedAt
  | ValidationErrorNotValidYet

type_synonym validation_error = "validation_flag list"

record token =
  Raw :: string
  Method :: signing_method
  Header :: json_object
  Claims :: json_object
  Signature :: string
  Valid :: bool

datatype stmt =
    InsertAccount account
  | DeleteAccountById int
  | SelectAccounts
  | SelectAccountById int
  | SelectDiscordUser string
  | InsertDiscordUser discord_user

record http_response =
  StatusCode :: nat
  Status :: string
  ResBody :: string

text \<open>
  Everything a request handler reads from outside the process: the configuration, the
  clock, the codecs and the keyed hash of the token library, the JSON decoders of request
  and profile payloads, the identity provider, and the failures of the database driver.
  A decoder returns the pointer it leaves behind (\<open>None\<close> is Go's \<^verbatim>\<open>nil\<close>, which the JSON
  value \<^verbatim>\<open>null\<close> produces) together with its error.

  \<^verbatim>\<open>NewAccount\<close> is not among the source files: it is a parameter, like the rest.
\<close>

record env =
  JWT_SECRET :: string
  Now :: int
  EncodeSegment :: "string \<Rightarrow> string"
  DecodeSegment :: "string \<Rightarrow> string option"
  Marshal :: "json_object \<Rightarrow> string"
  Unmarshal :: "string \<Rightarrow> json_object option"
  hmacSum :: "hash \<Rightarrow> string \<Rightarrow> string \<Rightarrow> string"
  NewAccount :: "string \<Rightarrow> string \<Rightarrow> account"
  DecodeCreateAccountRequest :: "string \<Rightarrow> create_account_request option \<times> string option"
  Exchange :: "string \<Rightarrow> string + string"
  ProfileGet :: "string \<Rightarrow> string + http_response"
  DecodeDiscordUser :: "string \<Rightarrow> discord_user option \<times> string option"
  dbFault :: "stmt \<Rightarrow> string option"
  dbNow :: int

text \<open>\<^verbatim>\<open>strings.Split(s, sep)\<close> for a one-byte separator: the empty string has one part.\<close>

fun Split :: "char \<Rightarrow> string \<Rightarrow> string list" where
  "Split sep [] = [[]]"
| "Split sep (c # cs) =
     (if c = sep then [] # Split sep cs
      else (case Split sep cs of [] \<Rightarrow> [[c]] | p # ps \<Rightarrow> (c # p) # ps))"

definition NewWithClaims :: "signing_method \<Rightarrow> json_object \<Rightarrow> token" where
  "NewWithClaims method claims =
     \<lparr>Raw = [], Method = method,
      Header = [(''typ'', JString ''JWT''), (''alg'', JString (Alg method))],
      Claims = claims, Signature = [], Valid = False\<rparr>"

definition SigningString :: "env \<Rightarrow> token \<Rightarrow> string" where
  "SigningString E t =
     EncodeSegment E (Marshal E (Header t)) @ ''.'' @ EncodeSegment E (Marshal E (Claims t))"

text \<open>
  \<^verbatim>\<open>Sign\<close> and \<^verbatim>\<open>Verify\<close> with a key of type \<^verbatim>\<open>[]byte\<close>, the only kind of key the server
  ever passes: the HMAC methods take it, every other method answers with an invalid-key
  error.
\<close>

fun Sign :: "env \<Rightarrow> signing_method \<Rightarrow> string \<Rightarrow> string \<Rightarrow> string + string" where
  "Sign E (SigningMethodHMAC h) signingString key =
     Inr (EncodeSegment E (hmacSum E h key signingString))"
| "Sign E m signingString key = Inl ''key is of invalid type''"

fun Verify :: "env \<Rightarrow> signing_method \<Rightarrow> string \<Rightarrow> string \<Rightarrow> string \<Rightarrow> bool" where
  "Verify E (SigningMethodHMAC h) signingString signature key =
     (case DecodeSegment E signature of
        None \<Rightarrow> False
      | Some sig \<Rightarrow> sig = hmacSum E h key signingString)"
| "Verify E m signingString signature key = False"

definition SignedString :: "env \<Rightarrow> token \<Rightarrow> string \<Rightarrow> string + string" where
  "SignedString E t key =
     (let sstr = SigningString E t in
      case Sign E (Method t) sstr key of
        Inl err \<Rightarrow> Inl err
      | Inr sig \<Rightarrow> Inr (sstr @ ''.'' @ sig))"

text \<open>
  A numeric date reaches the comparison as a \<^verbatim>\<open>time.Time\<close>: the number is converted to
  \<^verbatim>\<open>int64\<close> seconds (a value outside the 64-bit range converts to the least \<^verbatim>\<open>int64\<close>),
  and \<^verbatim>\<open>time.Unix\<close> adds the seconds between year 1 and 1970 in 64-bit arithmetic, which
  wraps around. Times are compared on that sum.
\<close>

definition wrap64 :: "int \<Rightarrow> int" where
  "wrap64 x = (x + 2 ^ 63) mod 2 ^ 64 - 2 ^ 63"

definition toInt64 :: "int \<Rightarrow> int" where
  "toInt64 v = (if - (2 ^ 63) \<le> v \<and> v < 2 ^ 63 then v else - (2 ^ 63))"

definition unixSec :: "int \<Rightarrow> int" where
  "unixSec sec = wrap64 (sec + 62135596800)"

definition numericDate :: "int \<Rightarrow> int" where
  "numericDate v = unixSec (toInt64 v)"

text \<open>
  \<^verbatim>\<open>MapClaims.Valid\<close>: only the registered claims \<^verbatim>\<open>exp\<close>, \<^verbatim>\<open>iat\<close> and \<^verbatim>\<open>nbf\<close> are
  looked at, none of them is required, a zero counts as unset, and a value that is not a
  number fails its check.
\<close>

definition verifyExp :: "int \<Rightarrow> json_object \<Rightarrow> bool" where
  "verifyExp now m =
     (case map_of m ''exp'' of
        None \<Rightarrow> True
      | Some (JNumber exp) \<Rightarrow> (if exp = 0 then True else unixSec now < numericDate exp)
      | Some (JString s) \<Rightarrow> False)"

definition verifyIat :: "int \<Rightarrow> json_object \<Rightarrow> bool" where
  "verifyIat now m =
     (case map_of m ''iat'' of
        None \<Rightarrow> True
      | Some (JNumber iat) \<Rightarrow> (if iat = 0 then True else numericDate iat \<le> unixSec now)
      | Some (JString s) \<Rightarrow> False)"

definition verifyNbf :: "int \<Rightarrow> json_object \<Rightarrow> bool" where
  "verifyNbf now m =
     (case map_of m ''nbf'' of
        None \<Rightarrow> True
      | Some (JNumber nbf) \<Rightarrow> (if nbf = 0 then True else numericDate nbf \<le> unixSec now)
      | Some (JString s) \<Rightarrow> False)"

definition MapClaimsValid :: "int \<Rightarrow> json_object \<Rightarrow> validation_error" where
  "MapClaimsValid now m =
     (if verifyExp now m then [] else [ValidationErrorExpired])
     @ (if verifyIat now m then [] else [ValidationErrorIssuedAt])
     @ (if verifyNbf now m then [] else [ValidationErrorNotValidYet])"

definition ParseUnverified ::
  "env \<Rightarrow> string \<Rightarrow> validation_error + (token \<times> string \<times> string \<times> string)" where
  "ParseUnverified E tokenString =
     (case Split (CHR ''.'') tokenString of
        [p0, p1, p2] \<Rightarrow>
          (case DecodeSegment E p0 of
             None \<Rightarrow> Inl [ValidationErrorMalformed]
           | Some headerBytes \<Rightarrow>
          (case Unmarshal E headerBytes of
             None \<Rightarrow> Inl [ValidationErrorMalformed]
           | Some header \<Rightarrow>
          (case DecodeSegment E p1 of
             None \<Rightarrow> Inl [ValidationErrorMalformed]
           | Some claimBytes \<Rightarrow>
          (case Unmarshal E claimBytes of
             None \<Rightarrow> Inl [ValidationErrorMalformed]
           | Some claims \<Rightarrow>
          (case map_of header ''alg'' of
             Some (JString alg) \<Rightarrow>
               (case GetSigningMethod alg of
                  None \<Rightarrow> Inl [ValidationErrorUnverifiable]
                | Some method \<Rightarrow>
                    Inr (\<lparr>Raw = tokenString, Method = method, Header = header,
                          Claims = claims, Signature = [], Valid = False\<rparr>, p0, p1, p2))
           | _ \<Rightarrow> Inl [ValidationErrorUnverifiable])))))
      | _ \<Rightarrow> Inl [ValidationErrorMalformed])"

definition Parse ::
  "env \<Rightarrow> string \<Rightarrow> (token \<Rightarrow> string + string) \<Rightarrow> validation_error + token" where
  "Parse E tokenString keyFunc =
     (case ParseUnverified E tokenString of
        Inl err \<Rightarrow> Inl err
      | Inr (token, p0, p1, p2) \<Rightarrow>
          (case keyFunc token of
             Inl err \<Rightarrow> Inl [ValidationErrorUnverifiable]
           | Inr key \<Rightarrow>
               (let vErr = MapClaimsValid (Now E) (Claims token);
                    token = token\<lparr>Signature := p2\<rparr>;
                    vErr = (if Verify E (Method token) (p0 @ ''.'' @ p1) (Signature token) key
                            then vErr else vErr @ [ValidationErrorSignatureInvalid])
                in if vErr = [] then Inr (token\<lparr>Valid := True\<rparr>) else Inl vErr)))"

section \<open>Token service\<close>

definition validateJwt :: "env \<Rightarrow> string \<Rightarrow> validation_error + token" where
  "validateJwt E tokenStr =
     (let secret = JWT_SECRET E in
      Parse E tokenStr
        (\<lambda>token. case Method token of
           SigningMethodHMAC h \<Rightarrow> Inr secret
         | _ \<Rightarrow> Inl (''unexpected signing method: '' @ Alg (Method token))))"

definition createJwt :: "env \<Rightarrow> account \<Rightarrow> string + string" where
  "createJwt E account =
     (let secret = JWT_SECRET E;
          token = NewWithClaims (SigningMethodHMAC SHA256)
                    [(''expiresAt'', JNumber 15000), (''accountNumber'', JNumber (Number account))]
      in SignedString E token secret)"

text \<open>
  What the round trip through the codecs needs of them, at the values it meets: a segment
  decodes to the bytes it encodes and holds no dot, and an object unmarshals to the same
  bindings.
\<close>

definition segmentRoundTrip :: "env \<Rightarrow> string \<Rightarrow> bool" where
  "segmentRoundTrip E b =
     (DecodeSegment E (EncodeSegment E b) = Some b \<and> CHR ''.'' \<notin> set (EncodeSegment E b))"

definition objectRoundTrip :: "env \<Rightarrow> json_object \<Rightarrow> bool" where
  "objectRoundTrip E obj =
     (case Unmarshal E (Marshal E obj) of
        None \<Rightarrow> False
      | Some obj' \<Rightarrow> map_of obj' = map_of obj)"

section \<open>HTTP plumbing\<close>

record request =
  ReqMethod :: string
  ReqHeader :: "(string \<times> string) list"
  Form :: "(string \<times> string) list"
  PathValues :: "(string \<times> string) list"
  Body :: string

text \<open>
  Header, form and path values are looked up under the names the handlers write; a missing
  name reads as the empty string.
\<close>

definition HeaderGet :: "request \<Rightarrow> string \<Rightarrow> string" where
  "HeaderGet r key = (case map_of (ReqHeader r) key of None \<Rightarrow> [] | Some v \<Rightarrow> v)"

definition FormValue :: "request \<Rightarrow> string \<Rightarrow> string" where
  "FormValue r key = (case map_of (Form r) key of None \<Rightarrow> [] | Some v \<Rightarrow> v)"

definition PathValue :: "request \<Rightarrow> string \<Rightarrow> string" where
  "PathValue r name = (case map_of (PathValues r) name of None \<Rightarrow> [] | Some v \<Rightarrow> v)"

datatype payload =
    JsonApiError string
  | JsonAccount account
  | JsonAccounts "account list"
  | JsonNull

datatype chunk = Bytes string | Json payload

text \<open>
  The response writer: the status line is fixed by the first \<^verbatim>\<open>WriteHeader\<close> (a later one
  is ignored), a write before any status sends 200, and a header set after the status is
  out is not sent.
\<close>

record response_writer =
  status :: "nat option"
  header :: "(string \<times> string) list"
  written :: "chunk list"

definition newResponseWriter :: response_writer where
  "newResponseWriter = \<lparr>status = None, header = [], written = []\<rparr>"

definition HeaderSet :: "response_writer \<Rightarrow> string \<Rightarrow> string \<Rightarrow> response_writer" where
  "HeaderSet w key v =
     (case status w of
        None \<Rightarrow> w\<lparr>header := (key, v) # filter (\<lambda>kv. fst kv \<noteq> key) (header w)\<rparr>
      | Some c \<Rightarrow> w)"

definition WriteHeader :: "response_writer \<Rightarrow> nat \<Rightarrow> response_writer" where
  "WriteHeader w code = (case status w of None \<Rightarrow> w\<lparr>status := Some code\<rparr> | Some c \<Rightarrow> w)"

definition Write :: "response_writer \<Rightarrow> chunk \<Rightarrow> response_writer" where
  "Write w data = (let w = WriteHeader w 200 in w\<lparr>written := written w @ [data]\<rparr>)"

text \<open>
  \<^verbatim>\<open>WriteJson\<close> returns the encoder's error, and the encoder does not fail on the values
  the handlers pass; a connection that breaks while writing is outside the model.
\<close>

definition WriteJson :: "response_writer \<Rightarrow> nat \<Rightarrow> payload \<Rightarrow> response_writer \<times> string option" where
  "WriteJson w st v =
     (let w = HeaderSet w ''Content-Type'' ''application/json'';
          w = WriteHeader w st
      in (Write w (Json v), None))"

definition WriteHtml :: "response_writer \<Rightarrow> nat \<Rightarrow> string \<Rightarrow> response_writer" where
  "WriteHtml w st v = Write (WriteHeader w st) (Bytes v)"

section \<open>Storage\<close>

text \<open>
  The two tables as the DDL declares them: \<^verbatim>\<open>account\<close> with a serial primary key, and
  \<^verbatim>\<open>discord_user\<close> with no key and no uniqueness constraint, its \<^verbatim>\<open>last_sign_in\<close>
  defaulted to the database clock. A statement fails when the driver says so
  (\<open>dbFault\<close>) and then changes nothing.

  Two things the driver does on its own account are written out. The \<^verbatim>\<open>id\<close> column is a
  32-bit integer, and the driver refuses to encode an identifier outside that range as its
  parameter. And \<^verbatim>\<open>Scan\<close> on the row of a query compares the number of columns with the
  number of destinations it is given: with no row it returns \<^verbatim>\<open>ErrNoRows\<close>, with a row and
  a different number of destinations it returns an error. For the insert of an account, a
  value the driver cannot encode is one of the failures \<open>dbFault\<close> stands for.
\<close>

datatype pgx_error = ErrNoRows | PgxError string

definition fitsInt4 :: "int \<Rightarrow> bool" where
  "fitsInt4 n = (- (2 ^ 31) \<le> n \<and> n < 2 ^ 31)"

definition QueryRowScan :: "string option \<Rightarrow> nat \<Rightarrow> nat \<Rightarrow> nat \<Rightarrow> pgx_error option" where
  "QueryRowScan fault rows columns dest =
     (case fault of
        Some err \<Rightarrow> Some (PgxError err)
      | None \<Rightarrow>
          if rows = 0 then Some ErrNoRows
          else if columns \<noteq> dest
          then Some (PgxError ''number of field descriptions must equal number of destinations'')
          else None)"

record store =
  accountTable :: "account list"
  accountIdSeq :: int
  discordUserTable :: "(discord_user \<times> int) list"

definition CreateAccount :: "env \<Rightarrow> store \<Rightarrow> account \<Rightarrow> store \<times> (string + account)" where
  "CreateAccount E st account =
     (case dbFault E (InsertAccount account) of
        Some err \<Rightarrow> (st, Inl err)
      | None \<Rightarrow>
          (let dbAccount = account\<lparr>ID := accountIdSeq st + 1\<rparr>
           in (st\<lparr>accountTable := accountTable st @ [dbAccount], accountIdSeq := accountIdSeq st + 1\<rparr>,
               Inr dbAccount)))"

definition DeleteAccount :: "env \<Rightarrow> store \<Rightarrow> int \<Rightarrow> store \<times> string option" where
  "DeleteAccount E st id' =
     (case dbFault E (DeleteAccountById id') of
        Some err \<Rightarrow> (st, Some err)
      | None \<Rightarrow>
          if fitsInt4 id'
          then (st\<lparr>accountTable := filter (\<lambda>a. ID a \<noteq> id') (accountTable st)\<rparr>, None)
          else (st, Some ''value out of range for int4''))"

definition UpdateAccount :: "env \<Rightarrow> store \<Rightarrow> account \<Rightarrow> store \<times> string option" where
  "UpdateAccount E st account = (st, None)"

definition GetAccounts :: "env \<Rightarrow> store \<Rightarrow> string + account list" where
  "GetAccounts E st =
     (case dbFault E SelectAccounts of Some err \<Rightarrow> Inl err | None \<Rightarrow> Inr (accountTable st))"

definition GetAccountById :: "env \<Rightarrow> store \<Rightarrow> int \<Rightarrow> string + account option" where
  "GetAccountById E st id' =
     (case dbFault E (SelectAccountById id') of
        Some err \<Rightarrow> Inl err
      | None \<Rightarrow>
          if fitsInt4 id'
          then (case filter (\<lambda>a. ID a = id') (accountTable st) of
                  [] \<Rightarrow> Inr None
                | [a] \<Rightarrow> Inr (Some a)
                | _ \<Rightarrow> Inl ''too many rows in result set'')
          else Inl ''value out of range for int4'')"

text \<open>
  \<^verbatim>\<open>DiscordUserExists\<close> selects one column and calls \<^verbatim>\<open>Scan()\<close> with no destination, so a
  row that is found is an error of \<^verbatim>\<open>Scan\<close> and the last line is never reached.
\<close>

definition DiscordUserExists :: "env \<Rightarrow> store \<Rightarrow> string \<Rightarrow> bool \<times> string option" where
  "DiscordUserExists E st id' =
     (case QueryRowScan (dbFault E (SelectDiscordUser id'))
             (length (filter (\<lambda>row. Id (fst row) = id') (discordUserTable st))) 1 0 of
        Some ErrNoRows \<Rightarrow> (False, None)
      | Some (PgxError err) \<Rightarrow> (False, Some err)
      | None \<Rightarrow> (True, None))"

definition CreateDiscordUser :: "env \<Rightarrow> store \<Rightarrow> discord_user \<Rightarrow> store \<times> string option" where
  "CreateDiscordUser E st user =
     (case dbFault E (InsertDiscordUser user) of
        Some err \<Rightarrow> (st, Some err)
      | None \<Rightarrow> (st\<lparr>discordUserTable := discordUserTable st @ [(user, dbNow E)]\<rparr>, None))"

section \<open>The server\<close>

text \<open>
  What a handler can change besides its response: the database, the standard output of
  the process, and the calls made to the identity provider, in order. A nil dereference
  panics; the handler stops there and \<open>panicked\<close> records it.
\<close>

datatype provider_call = ExchangeCall string | ProfileCall string

datatype log_line =
    LogLine string
  | LogFoundAccountNumber "json_value option"
  | LogJwtToken string

record world =
  db :: store
  stdout :: "log_line list"
  providerCalls :: "provider_call list"
  panicked :: bool

type_synonym handler = "world \<Rightarrow> response_writer \<Rightarrow> request \<Rightarrow> world \<times> response_writer"

type_synonym apiFunc =
  "world \<Rightarrow> response_writer \<Rightarrow> request \<Rightarrow> world \<times> response_writer \<times> string option"

definition println :: "world \<Rightarrow> log_line \<Rightarrow> world" where
  "println s l = s\<lparr>stdout := stdout s @ [l]\<rparr>"

definition withJwtAuth :: "env \<Rightarrow> handler \<Rightarrow> handler" where
  "withJwtAuth E handlerFunc s w r =
     (let s = println s (LogLine ''Calling JWTAuth middleware'');
          tokenStr = HeaderGet r ''x-jwt-token''
      in case validateJwt E tokenStr of
           Inl err \<Rightarrow> (s, fst (WriteJson w 403 (JsonApiError ''invalid token'')))
         | Inr token \<Rightarrow>
             (let s = (if Valid token
                       then println s (LogFoundAccountNumber (map_of (Claims token) ''accountNumber''))
                       else s)
              in handlerFunc s w r))"

definition makeHttpHandleFunc :: "apiFunc \<Rightarrow> handler" where
  "makeHttpHandleFunc f s w r =
     (case f s w r of
        (s, w, None) \<Rightarrow> (s, w)
      | (s, w, Some err) \<Rightarrow> (s, WriteHtml w 500 (''<h1>Error</h1><p>'' @ err @ ''</p>'')))"

definition quickErr :: "response_writer \<Rightarrow> string \<Rightarrow> response_writer" where
  "quickErr w err = Write (WriteHeader w 500) (Bytes err)"

definition callProvider :: "world \<Rightarrow> provider_call \<Rightarrow> world" where
  "callProvider s c = s\<lparr>providerCalls := providerCalls s @ [c]\<rparr>"

text \<open>
  \<^verbatim>\<open>handleAuthCallback\<close>, statement by statement. The decoder's error is dropped by the
  \<^verbatim>\<open>if json...Decode(&user); err != nil\<close> statement, which tests the \<^verbatim>\<open>err\<close> of the
  profile request (nil at that point); after a failed existence check \<^verbatim>\<open>quickErr\<close> is
  called and the function goes on.
\<close>

definition handleAuthCallback :: "env \<Rightarrow> handler" where
  "handleAuthCallback E s w r =
     (if FormValue r ''state'' \<noteq> ''randomstate''
      then (s, Write (WriteHeader w 400) (Bytes ''State does not match.''))
      else
        (let s = callProvider s (ExchangeCall (FormValue r ''code'')) in
         case Exchange E (FormValue r ''code'') of
           Inl err \<Rightarrow> (s, quickErr w err)
         | Inr token \<Rightarrow>
             (let s = callProvider s (ProfileCall token) in
              case ProfileGet E token of
                Inl err \<Rightarrow> (s, Write (WriteHeader w 500) (Bytes err))
              | Inr res \<Rightarrow>
                  if StatusCode res \<noteq> 200
                  then (s, Write (WriteHeader w 500) (Bytes (Status res)))
                  else
                    (case fst (DecodeDiscordUser E (ResBody res)) of
                       None \<Rightarrow> (s\<lparr>panicked := True\<rparr>, w)
                     | Some user \<Rightarrow>
                         (let (exists, err) = DiscordUserExists E (db s) (Id user);
                              w = (case err of None \<Rightarrow> w | Some e \<Rightarrow> quickErr w e)
                          in if \<not> exists
                             then (s\<lparr>db := fst (CreateDiscordUser E (db s) user)\<rparr>, w)
                             else (s, w))))))"

definition handleGetAllAccounts :: "env \<Rightarrow> apiFunc" where
  "handleGetAllAccounts E s w r =
     (case GetAccounts E (db s) of
        Inl err \<Rightarrow> (s, w, Some err)
      | Inr accounts \<Rightarrow> (case WriteJson w 200 (JsonAccounts accounts) of (w, err) \<Rightarrow> (s, w, err)))"

definition handleCreateAccount :: "env \<Rightarrow> apiFunc" where
  "handleCreateAccount E s w r =
     (case DecodeCreateAccountRequest E (Body r) of
        (accRequest, Some err) \<Rightarrow> (s, w, Some err)
      | (None, None) \<Rightarrow> (s\<lparr>panicked := True\<rparr>, w, None)
      | (Some accRequest, None) \<Rightarrow>
          (let account = NewAccount E (ReqFirstName accRequest) (ReqLastName accRequest) in
           case CreateAccount E (db s) account of
             (st, Inl err) \<Rightarrow> (s\<lparr>db := st\<rparr>, w, Some err)
           | (st, Inr dbAccount) \<Rightarrow>
               (let s = s\<lparr>db := st\<rparr> in
                case createJwt E account of
                  Inl err \<Rightarrow> (s, w, Some err)
                | Inr tokenStr \<Rightarrow>
                    (let s = println s (LogJwtToken tokenStr) in
                     case WriteJson w 200 (JsonAccount dbAccount) of (w, err) \<Rightarrow> (s, w, err)))))"

definition handleGetAccount :: "env \<Rightarrow> world \<Rightarrow> response_writer \<Rightarrow> request \<Rightarrow> int \<Rightarrow>
    world \<times> response_writer \<times> string option" where
  "handleGetAccount E s w r id' =
     (case GetAccountById E (db s) id' of
        Inl err \<Rightarrow> (s, w, Some err)
      | Inr None \<Rightarrow> (case WriteJson w 404 JsonNull of (w, err) \<Rightarrow> (s, w, err))
      | Inr (Some account) \<Rightarrow>
          (case WriteJson w 200 (JsonAccount account) of (w, err) \<Rightarrow> (s, w, err)))"

definition handleDeleteAccount :: "env \<Rightarrow> world \<Rightarrow> response_writer \<Rightarrow> request \<Rightarrow> int \<Rightarrow>
    world \<times> response_writer \<times> string option" where
  "handleDeleteAccount E s w r id' =
     (case DeleteAccount E (db s) id' of
        (st, Some err) \<Rightarrow> (s\<lparr>db := st\<rparr>, w, Some err)
      | (st, None) \<Rightarrow> (case WriteJson w 200 JsonNull of (w, err) \<Rightarrow> (s\<lparr>db := st\<rparr>, w, err)))"

text \<open>
  \<^verbatim>\<open>strconv.Atoi\<close>: an optional sign, then decimal digits only, and a value that fits a
  64-bit \<^verbatim>\<open>int\<close>.
\<close>

definition isDigit :: "char \<Rightarrow> bool" where
  "isDigit c = (48 \<le> (of_char c :: nat) \<and> (of_char c :: nat) \<le> 57)"

definition digitVal :: "char \<Rightarrow> int" where
  "digitVal c = int (of_char c) - 48"

definition Atoi :: "string \<Rightarrow> string + int" where
  "Atoi str =
     (let (neg, ds) =
            (case str of
               [] \<Rightarrow> (False, str)
             | c # cs \<Rightarrow>
                 if c = CHR ''-'' then (True, cs)
                 else if c = CHR ''+'' then (False, cs)
                 else (False, str))
      in if ds \<noteq> [] \<and> list_all isDigit ds
         then (let n = foldl (\<lambda>a c. 10 * a + digitVal c) 0 ds;
                   v = (if neg then - n else n)
               in if - (2 ^ 63) \<le> v \<and> v < 2 ^ 63 then Inr v
                  else Inl ''value out of range'')
         else Inl ''invalid syntax'')"

definition handleOneAccount :: "env \<Rightarrow> apiFunc" where
  "handleOneAccount E s w r =
     (let idStr = PathValue r ''id'' in
      case Atoi idStr of
        Inl err \<Rightarrow> (s, w, Some (''invalid id given: '' @ idStr))
      | Inr id' \<Rightarrow>
          if ReqMethod r = ''GET'' then handleGetAccount E s w r id'
          else if ReqMethod r = ''DELETE'' then handleDeleteAccount E s w r id'
          else (s, w, Some (''method not allowed: '' @ ReqMethod r)))"

definition handleAccounts :: "env \<Rightarrow> apiFunc" where
  "handleAccounts E s w r =
     (if ReqMethod r = ''GET'' then handleGetAllAccounts E s w r
      else if ReqMethod r = ''POST'' then handleCreateAccount E s w r
      else (s, w, Some (''method not allowed: '' @ ReqMethod r)))"

text \<open>The two account routes as \<^verbatim>\<open>Run\<close> registers them.\<close>

definition routeAccount :: "env \<Rightarrow> handler" where
  "routeAccount E = makeHttpHandleFunc (handleAccounts E)"

definition routeAccountId :: "env \<Rightarrow> handler" where
  "routeAccountId E = withJwtAuth E (makeHttpHandleFunc (handleOneAccount E))"

section \<open>Reading a token string and a response\<close>

text \<open>
  The algorithm a token string names, the keyed hash of its signing input under a key (for
  a token of the HMAC family), and its signature bytes. A token string is signed with a
  key when its signature is that keyed hash.
\<close>

definition algOf :: "env \<Rightarrow> string \<Rightarrow> signing_method option" where
  "algOf E tokenStr =
     (case ParseUnverified E tokenStr of
        Inl err \<Rightarrow> None
      | Inr (t, p0, p1, p2) \<Rightarrow> Some (Method t))"

definition macOf :: "env \<Rightarrow> string \<Rightarrow> string \<Rightarrow> string option" where
  "macOf E key tokenStr =
     (case ParseUnverified E tokenStr of
        Inl err \<Rightarrow> None
      | Inr (t, p0, p1, p2) \<Rightarrow>
          (case Method t of
             SigningMethodHMAC h \<Rightarrow> Some (hmacSum E h key (p0 @ ''.'' @ p1))
           | _ \<Rightarrow> None))"

definition signatureOf :: "env \<Rightarrow> string \<Rightarrow> string option" where
  "signatureOf E tokenStr =
     (case ParseUnverified E tokenStr of
        Inl err \<Rightarrow> None
      | Inr (t, p0, p1, p2) \<Rightarrow> DecodeSegment E p2)"

definition signedWith :: "env \<Rightarrow> string \<Rightarrow> string \<Rightarrow> bool" where
  "signedWith E key tokenStr =
     (macOf E key tokenStr \<noteq> None \<and> signatureOf E tokenStr = macOf E key tokenStr)"

text \<open>\<^verbatim>\<open>strings.Contains\<close>, and whether a string occurs in what a response sends.\<close>

fun HasPrefix :: "string \<Rightarrow> string \<Rightarrow> bool" where
  "HasPrefix s [] = True"
| "HasPrefix [] (p # ps) = False"
| "HasPrefix (c # cs) (p # ps) = (c = p \<and> HasPrefix cs ps)"

fun Contains :: "string \<Rightarrow> string \<Rightarrow> bool" where
  "Contains [] substr = (substr = [])"
| "Contains (c # cs) substr = (HasPrefix (c # cs) substr \<or> Contains cs substr)"

fun payloadStrings :: "payload \<Rightarrow> string list" where
  "payloadStrings (JsonApiError e) = [e]"
| "payloadStrings (JsonAccount a) = [FirstName a, LastName a]"
| "payloadStrings (JsonAccounts as) = concat (map (\<lambda>a. [FirstName a, LastName a]) as)"
| "payloadStrings JsonNull = []"

fun chunkStrings :: "chunk \<Rightarrow> string list" where
  "chunkStrings (Bytes b) = [b]"
| "chunkStrings (Json v) = payloadStrings v"

definition carries :: "response_writer \<Rightarrow> string \<Rightarrow> bool" where
  "carries w str =
     list_ex (\<lambda>x. Contains x str) (map snd (header w) @ concat (map chunkStrings (written w)))"

section \<open>Test doubles\<close>

text \<open>
  An environment for running the handlers on concrete requests: segments are passed
  through as they are, the JSON codec is a table over the objects of the runs, the keyed
  hash joins key and message, the identity provider knows one authorization code per
  scenario, and the database never fails.
\<close>

definition testHeader :: "signing_method \<Rightarrow> json_object" where
  "testHeader m = [(''typ'', JString ''JWT''), (''alg'', JString (Alg m))]"

definition testClaims :: "int \<Rightarrow> json_object" where
  "testClaims n = [(''expiresAt'', JNumber 15000), (''accountNumber'', JNumber n)]"

definition testMarshal :: "json_object \<Rightarrow> string" where
  "testMarshal obj =
     (if obj = testHeader (SigningMethodHMAC SHA256) then ''hs256''
      else if obj = testHeader SigningMethodNone then ''none''
      else if obj = testClaims 7 then ''acct7''
      else ''other'')"

definition testUnmarshal :: "string \<Rightarrow> json_object option" where
  "testUnmarshal b =
     (if b = ''hs256'' then Some (testHeader (SigningMethodHMAC SHA256))
      else if b = ''none'' then Some (testHeader SigningMethodNone)
      else if b = ''acct7'' then Some (testClaims 7)
      else None)"

definition testHmac :: "hash \<Rightarrow> string \<Rightarrow> string \<Rightarrow> string" where
  "testHmac h key msg = key @ ''/'' @ filter (\<lambda>c. c \<noteq> CHR ''.'') msg"

definition testAccount :: "string \<Rightarrow> string \<Rightarrow> account" where
  "testAccount firstName lastName =
     \<lparr>ID = 0, FirstName = firstName, LastName = lastName, Number = 7, Balance = 0,
      CreatedAt = 1700000000\<rparr>"

definition emptyUser :: discord_user where
  "emptyUser = \<lparr>Id = [], GlobalName = [], Avatar = []\<rparr>"

definition user42 :: discord_user where
  "user42 = \<lparr>Id = ''42'', GlobalName = ''ada'', Avatar = ''13a4''\<rparr>"

definition testEnv :: env where
  "testEnv =
     \<lparr>JWT_SECRET = ''s3cret'',
      Now = 1700000000,
      EncodeSegment = (\<lambda>b. b),
      DecodeSegment = Some,
      Marshal = testMarshal,
      Unmarshal = testUnmarshal,
      hmacSum = testHmac,
      NewAccount = testAccount,
      DecodeCreateAccountRequest =
        (\<lambda>body. if body = ''{firstName:Ada,lastName:Lovelace}''
                 then (Some \<lparr>ReqFirstName = ''Ada'', ReqLastName = ''Lovelace''\<rparr>, None)
                 else (Some \<lparr>ReqFirstName = [], ReqLastName = []\<rparr>, Some ''invalid character'')),
      Exchange =
        (\<lambda>code. if code = ''code42'' then Inr ''token42''
                 else if code = ''codeGarbled'' then Inr ''tokenGarbled''
                 else Inl ''oauth2: cannot fetch token''),
      ProfileGet =
        (\<lambda>tok. if tok = ''token42''
                then Inr \<lparr>StatusCode = 200, Status = ''200 OK'', ResBody = ''{id:42}''\<rparr>
                else if tok = ''tokenGarbled''
                then Inr \<lparr>StatusCode = 200, Status = ''200 OK'', ResBody = ''<html>''\<rparr>
                else Inl ''connection refused''),
      DecodeDiscordUser =
        (\<lambda>body. if body = ''{id:42}'' then (Some user42, None)
                 else (Some emptyUser, Some ''invalid character'')),
      dbFault = (\<lambda>q. None),
      dbNow = 1700000000\<rparr>"

text \<open>The same environment with a driver that fails every existence query.\<close>

definition selectFaultEnv :: env where
  "selectFaultEnv =
     testEnv\<lparr>dbFault :=
       (\<lambda>q. case q of SelectDiscordUser i \<Rightarrow> Some ''conn closed'' | _ \<Rightarrow> None)\<rparr>"

definition emptyWorld :: world where
  "emptyWorld =
     \<lparr>db = \<lparr>accountTable = [], accountIdSeq = 0, discordUserTable = []\<rparr>,
      stdout = [], providerCalls = [], panicked = False\<rparr>"

definition linkedWorld :: world where
  "linkedWorld =
     \<lparr>db = \<lparr>accountTable = [], accountIdSeq = 0, discordUserTable = [(user42, 1600000000)]\<rparr>,
      stdout = [], providerCalls = [], panicked = False\<rparr>"

definition callback :: "string \<Rightarrow> string \<Rightarrow> request" where
  "callback st code =
     \<lparr>ReqMethod = ''GET'', ReqHeader = [], Form = [(''state'', st), (''code'', code)],
      PathValues = [], Body = []\<rparr>"

definition accountRequest :: "string \<Rightarrow> (string \<times> string) list \<Rightarrow> string \<Rightarrow> request" where
  "accountRequest m hdr ident =
     \<lparr>ReqMethod = m, ReqHeader = hdr, Form = [], PathValues = [(''id'', ident)], Body = []\<rparr>"

definition createRequest :: request where
  "createRequest =
     \<lparr>ReqMethod = ''POST'', ReqHeader = [], Form = [], PathValues = [],
      Body = ''{firstName:Ada,lastName:Lovelace}''\<rparr>"

section \<open>Facts about the plumbing\<close>

lemmas jwt_defs =
  validateJwt_def createJwt_def Parse_def ParseUnverified_def SignedString_def SigningString_def
  NewWithClaims_def MapClaimsValid_def verifyExp_def verifyIat_def verifyNbf_def
  GetSigningMethod_def signingMethods_def algOf_def macOf_def signatureOf_def signedWith_def
  segmentRoundTrip_def objectRoundTrip_def

lemmas http_defs =
  HeaderGet_def FormValue_def PathValue_def newResponseWriter_def HeaderSet_def WriteHeader_def
  Write_def WriteJson_def WriteHtml_def quickErr_def println_def callProvider_def

lemmas store_defs =
  CreateAccount_def DeleteAccount_def UpdateAccount_def GetAccounts_def GetAccountById_def
  DiscordUserExists_def CreateDiscordUser_def QueryRowScan_def fitsInt4_def

lemmas handler_defs =
  withJwtAuth_def makeHttpHandleFunc_def handleAuthCallback_def handleGetAllAccounts_def
  handleCreateAccount_def handleGetAccount_def handleDeleteAccount_def handleOneAccount_def
  handleAccounts_def routeAccount_def routeAccountId_def Atoi_def isDigit_def digitVal_def

lemmas test_defs =
  testHeader_def testClaims_def testMarshal_def testUnmarshal_def testHmac_def testAccount_def
  emptyUser_def user42_def testEnv_def selectFaultEnv_def emptyWorld_def linkedWorld_def
  callback_def accountRequest_def createRequest_def

lemma Split_no_sep: "sep \<notin> set a \<Longrightarrow> Split sep a = [a]"
  by (induction a) auto

lemma Split_append_sep:
  "sep \<notin> set a \<Longrightarrow> Split sep (a @ sep # rest) = a # Split sep rest"
  by (induction a) auto

lemma Split_three:
  "sep \<notin> set a \<Longrightarrow> sep \<notin> set b \<Longrightarrow> sep \<notin> set c \<Longrightarrow>
   Split sep (a @ [sep] @ b @ [sep] @ c) = [a, b, c]"
  by (simp add: Split_append_sep Split_no_sep)

lemma GetSigningMethod_Alg: "GetSigningMethod (Alg m) = Some m"
  by (cases m rule: Alg.cases) (simp_all add: GetSigningMethod_def signingMethods_def)

lemma WriteJson_fresh:
  "status w = None \<Longrightarrow>
   WriteJson w code v =
     (w\<lparr>status := Some code,
        header := (''Content-Type'', ''application/json'')
                  # filter (\<lambda>kv. fst kv \<noteq> ''Content-Type'') (header w),
        written := written w @ [Json v]\<rparr>, None)"
  by (simp add: WriteJson_def HeaderSet_def WriteHeader_def Write_def)

text \<open>
  A token string that \<^verbatim>\<open>validateJwt\<close> accepts names an algorithm of the HMAC family, carries
  the keyed hash of its signing input under the server's secret, and comes back marked
  valid.
\<close>

lemma validateJwt_accepts:
  assumes "validateJwt E tokenStr = Inr token"
  shows "isHMAC (Method token) \<and> Valid token \<and> signedWith E (JWT_SECRET E) tokenStr
         \<and> algOf E tokenStr = Some (Method token)"
  using assms
  by (auto simp: validateJwt_def Parse_def Let_def signedWith_def macOf_def signatureOf_def
      algOf_def split: sum.splits prod.splits signing_method.splits if_splits option.splits)

lemma validateJwt_empty: "validateJwt E [] = Inl [ValidationErrorMalformed]"
  by (simp add: validateJwt_def Parse_def ParseUnverified_def)

lemma createJwt_returns: "\<exists>tokenStr. createJwt E account = Inr tokenStr"
  by (simp add: createJwt_def SignedString_def NewWithClaims_def Let_def)

section \<open>Token service: mint and verify\<close>

text \<open>
  C1. For every account, the token that \<^verbatim>\<open>createJwt\<close> mints verifies under
  \<^verbatim>\<open>validateJwt\<close> with the same secret, and the verified claim set holds the account's
  number under \<^verbatim>\<open>accountNumber\<close>. The codecs are the environment's: the statement asks
  of them that the header object, the claim object and the signature of this token survive
  the round trip (which base64url and JSON do).
\<close>

theorem createJwt_validateJwt:
  fixes E :: env and account :: account
  defines "hdr \<equiv> [(''typ'', JString ''JWT''), (''alg'', JString ''HS256'')]"
  defines "claims \<equiv> [(''expiresAt'', JNumber 15000), (''accountNumber'', JNumber (Number account))]"
  defines "sstr \<equiv> EncodeSegment E (Marshal E hdr) @ ''.'' @ EncodeSegment E (Marshal E claims)"
  assumes h: "objectRoundTrip E hdr" "segmentRoundTrip E (Marshal E hdr)"
      and c: "objectRoundTrip E claims" "segmentRoundTrip E (Marshal E claims)"
      and s: "segmentRoundTrip E (hmacSum E SHA256 (JWT_SECRET E) sstr)"
  shows "\<exists>tokenStr token. createJwt E account = Inr tokenStr
           \<and> validateJwt E tokenStr = Inr token \<and> Valid token
           \<and> map_of (Claims token) ''accountNumber'' = Some (JNumber (Number account))"
proof -
  obtain hdr' where h': "Unmarshal E (Marshal E hdr) = Some hdr'" "map_of hdr' = map_of hdr"
    using h(1) by (auto simp: objectRoundTrip_def split: option.splits)
  obtain claims' where c': "Unmarshal E (Marshal E claims) = Some claims'"
      "map_of claims' = map_of claims"
    using c(1) by (auto simp: objectRoundTrip_def split: option.splits)
  let ?p0 = "EncodeSegment E (Marshal E hdr)"
  let ?p1 = "EncodeSegment E (Marshal E claims)"
  let ?p2 = "EncodeSegment E (hmacSum E SHA256 (JWT_SECRET E) sstr)"
  let ?raw = "?p0 @ ''.'' @ ?p1 @ ''.'' @ ?p2"
  have mint: "createJwt E account = Inr ?raw"
    by (simp add: createJwt_def SignedString_def SigningString_def NewWithClaims_def
        hdr_def claims_def sstr_def)
  have parts: "Split (CHR ''.'') ?raw = [?p0, ?p1, ?p2]"
    using h(2) c(2) s Split_three[of "CHR ''.''" ?p0 ?p1 ?p2]
    by (simp add: segmentRoundTrip_def)
  have alg: "map_of hdr' ''alg'' = Some (JString ''HS256'')"
    by (simp add: h'(2) hdr_def)
  have known: "GetSigningMethod ''HS256'' = Some (SigningMethodHMAC SHA256)"
    using GetSigningMethod_Alg[of "SigningMethodHMAC SHA256"] by simp
  have unverified: "ParseUnverified E ?raw =
      Inr (\<lparr>Raw = ?raw, Method = SigningMethodHMAC SHA256,
            Header = hdr', Claims = claims', Signature = [], Valid = False\<rparr>, ?p0, ?p1, ?p2)"
    unfolding ParseUnverified_def parts
    using h(2) c(2) h'(1) c'(1) alg known by (simp add: segmentRoundTrip_def)
  have registered: "MapClaimsValid (Now E) claims' = []"
    by (simp add: MapClaimsValid_def verifyExp_def verifyIat_def verifyNbf_def c'(2) claims_def)
  have signature: "Verify E (SigningMethodHMAC SHA256) (?p0 @ ''.'' @ ?p1) ?p2 (JWT_SECRET E)"
    using s by (simp add: segmentRoundTrip_def sstr_def)
  have "validateJwt E ?raw =
      Inr \<lparr>Raw = ?raw, Method = SigningMethodHMAC SHA256,
            Header = hdr', Claims = claims', Signature = ?p2, Valid = True\<rparr>"
    unfolding validateJwt_def Parse_def unverified using registered signature
    by (simp add: Let_def)
  then show ?thesis using mint by (simp add: c'(2) claims_def)
qed

text \<open>The round trip on the test environment, for the account numbered 7.\<close>

theorem createJwt_validateJwt_witness:
  "objectRoundTrip testEnv [(''typ'', JString ''JWT''), (''alg'', JString ''HS256'')]
   \<and> segmentRoundTrip testEnv
       (Marshal testEnv [(''typ'', JString ''JWT''), (''alg'', JString ''HS256'')])
   \<and> objectRoundTrip testEnv
       [(''expiresAt'', JNumber 15000),
        (''accountNumber'', JNumber (Number (testAccount ''Ada'' ''Lovelace'')))]
   \<and> segmentRoundTrip testEnv
       (Marshal testEnv
         [(''expiresAt'', JNumber 15000),
          (''accountNumber'', JNumber (Number (testAccount ''Ada'' ''Lovelace'')))])
   \<and> segmentRoundTrip testEnv
       (hmacSum testEnv SHA256 (JWT_SECRET testEnv)
         (EncodeSegment testEnv
            (Marshal testEnv [(''typ'', JString ''JWT''), (''alg'', JString ''HS256'')])
          @ ''.'' @
          EncodeSegment testEnv
            (Marshal testEnv
              [(''expiresAt'', JNumber 15000),
               (''accountNumber'', JNumber (Number (testAccount ''Ada'' ''Lovelace'')))])))
   \<and> (\<exists>tokenStr token. createJwt testEnv (testAccount ''Ada'' ''Lovelace'') = Inr tokenStr
         \<and> validateJwt testEnv tokenStr = Inr token \<and> Valid token
         \<and> map_of (Claims token) ''accountNumber''
             = Some (JNumber (Number (testAccount ''Ada'' ''Lovelace''))))"
proof -
  let ?hdr = "[(''typ'', JString ''JWT''), (''alg'', JString ''HS256'')]"
  let ?claims = "[(''expiresAt'', JNumber 15000),
                  (''accountNumber'', JNumber (Number (testAccount ''Ada'' ''Lovelace'')))]"
  have h1: "objectRoundTrip testEnv ?hdr"
    by (simp add: jwt_defs test_defs)
  have h2: "segmentRoundTrip testEnv (Marshal testEnv ?hdr)"
    by (simp add: jwt_defs test_defs)
  have c1: "objectRoundTrip testEnv ?claims"
    by (simp add: jwt_defs test_defs)
  have c2: "segmentRoundTrip testEnv (Marshal testEnv ?claims)"
    by (simp add: jwt_defs test_defs)
  have s: "segmentRoundTrip testEnv
       (hmacSum testEnv SHA256 (JWT_SECRET testEnv)
         (EncodeSegment testEnv (Marshal testEnv ?hdr) @ ''.'' @
          EncodeSegment testEnv (Marshal testEnv ?claims)))"
    by (simp add: jwt_defs test_defs)
  from createJwt_validateJwt[OF h1 h2 c1 c2 s] h1 h2 c1 c2 s
  show ?thesis by (intro conjI)
qed

text \<open>
  C3. A token string is rejected by \<^verbatim>\<open>validateJwt\<close> when it is signed with another
  secret (its signature is the keyed hash under a key whose hash of this token's signing
  input differs from the one under the server's secret), and when it does not name an
  algorithm of the HMAC family (it names RSA, RSA-PSS, ECDSA, EdDSA, none or an algorithm
  the library does not know, or it cannot be read at all), whatever its signature.
\<close>

theorem validateJwt_rejects_foreign:
  assumes "(signedWith E key tokenStr \<and> macOf E key tokenStr \<noteq> macOf E (JWT_SECRET E) tokenStr)
           \<or> (\<forall>h. algOf E tokenStr \<noteq> Some (SigningMethodHMAC h))"
  shows "\<exists>err. validateJwt E tokenStr = Inl err"
proof (cases "validateJwt E tokenStr")
  case (Inl err)
  then show ?thesis by blast
next
  case (Inr token)
  from validateJwt_accepts[OF Inr]
  have a: "isHMAC (Method token)" "signedWith E (JWT_SECRET E) tokenStr"
    "algOf E tokenStr = Some (Method token)" by auto
  from assms show ?thesis
  proof
    assume "signedWith E key tokenStr \<and> macOf E key tokenStr \<noteq> macOf E (JWT_SECRET E) tokenStr"
    with a(2) show ?thesis by (auto simp: signedWith_def)
  next
    assume "\<forall>h. algOf E tokenStr \<noteq> Some (SigningMethodHMAC h)"
    with a(1,3) show ?thesis by (cases "Method token") auto
  qed
qed

text \<open>
  On the test environment: the token of account 7 signed with the secret \<^verbatim>\<open>wrong\<close>, and
  an unsigned token whose header names the algorithm \<^verbatim>\<open>none\<close>.
\<close>

theorem validateJwt_rejects_foreign_witness:
  "signedWith testEnv ''wrong'' ''hs256.acct7.wrong/hs256acct7''
   \<and> macOf testEnv ''wrong'' ''hs256.acct7.wrong/hs256acct7''
       \<noteq> macOf testEnv (JWT_SECRET testEnv) ''hs256.acct7.wrong/hs256acct7''
   \<and> (\<exists>err. validateJwt testEnv ''hs256.acct7.wrong/hs256acct7'' = Inl err)
   \<and> algOf testEnv ''none.acct7.'' = Some SigningMethodNone
   \<and> (\<forall>h. algOf testEnv ''none.acct7.'' \<noteq> Some (SigningMethodHMAC h))
   \<and> (\<exists>err. validateJwt testEnv ''none.acct7.'' = Inl err)"
proof -
  have k: "signedWith testEnv ''wrong'' ''hs256.acct7.wrong/hs256acct7''"
    by (simp add: jwt_defs test_defs)
  have d: "macOf testEnv ''wrong'' ''hs256.acct7.wrong/hs256acct7''
       \<noteq> macOf testEnv (JWT_SECRET testEnv) ''hs256.acct7.wrong/hs256acct7''"
    by (simp add: jwt_defs test_defs)
  have n: "algOf testEnv ''none.acct7.'' = Some SigningMethodNone"
    by (simp add: jwt_defs test_defs)
  have r1: "\<exists>err. validateJwt testEnv ''hs256.acct7.wrong/hs256acct7'' = Inl err"
    using validateJwt_rejects_foreign[of testEnv "''wrong''" "''hs256.acct7.wrong/hs256acct7''"]
      k d by blast
  have o: "\<forall>h. algOf testEnv ''none.acct7.'' \<noteq> Some (SigningMethodHMAC h)"
    using n by simp
  have r2: "\<exists>err. validateJwt testEnv ''none.acct7.'' = Inl err"
    using validateJwt_rejects_foreign[of testEnv "''wrong''" "''none.acct7.''"] o by blast
  from k d r1 n o r2 show ?thesis by (intro conjI)
qed

section \<open>The JWT middleware\<close>

text \<open>
  C2. On a fresh response, \<^verbatim>\<open>withJwtAuth\<close> runs the wrapped handler exactly when the
  value of the \<^verbatim>\<open>x-jwt-token\<close> header verifies. A request without the header does not
  verify. When verification fails the outcome is the 403 response with the JSON body
  \<^verbatim>\<open>{"Error": "invalid token"}\<close>, whatever the handler is. When it succeeds the outcome is
  the handler's own, on the same request and response, for every request path and every
  claim set: the account number of the token is printed and compared with nothing.
\<close>

theorem withJwtAuth_gate:
  assumes "status w = None"
  shows "(map_of (ReqHeader r) ''x-jwt-token'' = None \<longrightarrow>
            validateJwt E (HeaderGet r ''x-jwt-token'') = Inl [ValidationErrorMalformed])
       \<and> (\<forall>err. validateJwt E (HeaderGet r ''x-jwt-token'') = Inl err \<longrightarrow>
            withJwtAuth E handlerFunc s w r =
              (println s (LogLine ''Calling JWTAuth middleware''),
               w\<lparr>status := Some 403,
                  header := (''Content-Type'', ''application/json'')
                            # filter (\<lambda>kv. fst kv \<noteq> ''Content-Type'') (header w),
                  written := written w @ [Json (JsonApiError ''invalid token'')]\<rparr>))
       \<and> (\<forall>token. validateJwt E (HeaderGet r ''x-jwt-token'') = Inr token \<longrightarrow>
            withJwtAuth E handlerFunc s w r =
              handlerFunc
                (println (println s (LogLine ''Calling JWTAuth middleware''))
                   (LogFoundAccountNumber (map_of (Claims token) ''accountNumber'')))
                w r)"
proof (intro conjI allI impI)
  assume "map_of (ReqHeader r) ''x-jwt-token'' = None"
  then show "validateJwt E (HeaderGet r ''x-jwt-token'') = Inl [ValidationErrorMalformed]"
    by (simp add: HeaderGet_def validateJwt_empty)
next
  fix err assume "validateJwt E (HeaderGet r ''x-jwt-token'') = Inl err"
  then show "withJwtAuth E handlerFunc s w r =
              (println s (LogLine ''Calling JWTAuth middleware''),
               w\<lparr>status := Some 403,
                  header := (''Content-Type'', ''application/json'')
                            # filter (\<lambda>kv. fst kv \<noteq> ''Content-Type'') (header w),
                  written := written w @ [Json (JsonApiError ''invalid token'')]\<rparr>)"
    using assms by (simp add: withJwtAuth_def WriteJson_fresh)
next
  fix token assume v: "validateJwt E (HeaderGet r ''x-jwt-token'') = Inr token"
  then have "Valid token" using validateJwt_accepts by blast
  with v show "withJwtAuth E handlerFunc s w r =
              handlerFunc
                (println (println s (LogLine ''Calling JWTAuth middleware''))
                   (LogFoundAccountNumber (map_of (Claims token) ''accountNumber'')))
                w r"
    by (simp add: withJwtAuth_def)
qed

text \<open>
  On the test environment: a request without the header is answered 403, and the token of
  account number 7 opens the route of account 99.
\<close>

theorem withJwtAuth_gate_witness:
  "status newResponseWriter = None
   \<and> map_of (ReqHeader (accountRequest ''GET'' [] ''99'')) ''x-jwt-token'' = None
   \<and> withJwtAuth testEnv (makeHttpHandleFunc (handleOneAccount testEnv)) emptyWorld
        newResponseWriter (accountRequest ''GET'' [] ''99'') =
       (println emptyWorld (LogLine ''Calling JWTAuth middleware''),
        \<lparr>status = Some 403, header = [(''Content-Type'', ''application/json'')],
         written = [Json (JsonApiError ''invalid token'')]\<rparr>)
   \<and> validateJwt testEnv
        (HeaderGet (accountRequest ''GET'' [(''x-jwt-token'', ''hs256.acct7.s3cret/hs256acct7'')] ''99'')
           ''x-jwt-token'') =
       Inr \<lparr>Raw = ''hs256.acct7.s3cret/hs256acct7'', Method = SigningMethodHMAC SHA256,
             Header = [(''typ'', JString ''JWT''), (''alg'', JString ''HS256'')],
             Claims = [(''expiresAt'', JNumber 15000), (''accountNumber'', JNumber 7)],
             Signature = ''s3cret/hs256acct7'', Valid = True\<rparr>
   \<and> withJwtAuth testEnv (makeHttpHandleFunc (handleOneAccount testEnv)) emptyWorld
        newResponseWriter
        (accountRequest ''GET'' [(''x-jwt-token'', ''hs256.acct7.s3cret/hs256acct7'')] ''99'') =
       makeHttpHandleFunc (handleOneAccount testEnv)
         (println (println emptyWorld (LogLine ''Calling JWTAuth middleware''))
            (LogFoundAccountNumber (Some (JNumber 7))))
         newResponseWriter
         (accountRequest ''GET'' [(''x-jwt-token'', ''hs256.acct7.s3cret/hs256acct7'')] ''99'')"
proof -
  let ?h = "makeHttpHandleFunc (handleOneAccount testEnv)"
  let ?r0 = "accountRequest ''GET'' [] ''99''"
  let ?r1 = "accountRequest ''GET'' [(''x-jwt-token'', ''hs256.acct7.s3cret/hs256acct7'')] ''99''"
  have fresh: "status newResponseWriter = None"
    by (simp add: newResponseWriter_def)
  have absent: "map_of (ReqHeader ?r0) ''x-jwt-token'' = None"
    by (simp add: accountRequest_def)
  have good: "validateJwt testEnv (HeaderGet ?r1 ''x-jwt-token'') =
       Inr \<lparr>Raw = ''hs256.acct7.s3cret/hs256acct7'', Method = SigningMethodHMAC SHA256,
             Header = [(''typ'', JString ''JWT''), (''alg'', JString ''HS256'')],
             Claims = [(''expiresAt'', JNumber 15000), (''accountNumber'', JNumber 7)],
             Signature = ''s3cret/hs256acct7'', Valid = True\<rparr>"
    by (simp add: jwt_defs test_defs HeaderGet_def)
  note g0 = withJwtAuth_gate[OF fresh, of ?r0 testEnv ?h emptyWorld]
  note g1 = withJwtAuth_gate[OF fresh, of ?r1 testEnv ?h emptyWorld]
  from g0 absent have rejected: "withJwtAuth testEnv ?h emptyWorld newResponseWriter ?r0 =
       (println emptyWorld (LogLine ''Calling JWTAuth middleware''),
        \<lparr>status = Some 403, header = [(''Content-Type'', ''application/json'')],
         written = [Json (JsonApiError ''invalid token'')]\<rparr>)"
    by (simp add: newResponseWriter_def)
  from g1 good have passed: "withJwtAuth testEnv ?h emptyWorld newResponseWriter ?r1 =
       ?h (println (println emptyWorld (LogLine ''Calling JWTAuth middleware''))
            (LogFoundAccountNumber (Some (JNumber 7)))) newResponseWriter ?r1"
    by simp
  from fresh absent rejected good passed show ?thesis by (intro conjI)
qed

section \<open>OAuth callback\<close>

text \<open>
  C4. A callback whose \<^verbatim>\<open>state\<close> parameter is not the expected value is answered 400
  with the text \<^verbatim>\<open>State does not match.\<close> and changes nothing else: no code is exchanged,
  no profile is fetched, the database is not touched.
\<close>

theorem handleAuthCallback_state_mismatch:
  assumes "FormValue r ''state'' \<noteq> ''randomstate''" and "status w = None"
  shows "handleAuthCallback E s w r =
           (s, w\<lparr>status := Some 400, written := written w @ [Bytes ''State does not match.'']\<rparr>)
         \<and> providerCalls (fst (handleAuthCallback E s w r)) = providerCalls s"
  using assms by (simp add: handleAuthCallback_def WriteHeader_def Write_def)

theorem handleAuthCallback_state_mismatch_witness:
  "FormValue (callback ''forged'' ''code42'') ''state'' \<noteq> ''randomstate''
   \<and> status newResponseWriter = None
   \<and> handleAuthCallback testEnv emptyWorld newResponseWriter (callback ''forged'' ''code42'') =
       (emptyWorld,
        \<lparr>status = Some 400, header = [], written = [Bytes ''State does not match.'']\<rparr>)
   \<and> providerCalls
       (fst (handleAuthCallback testEnv emptyWorld newResponseWriter (callback ''forged'' ''code42'')))
       = providerCalls emptyWorld"
proof -
  have m: "FormValue (callback ''forged'' ''code42'') ''state'' \<noteq> ''randomstate''"
    by (simp add: FormValue_def callback_def)
  have fresh: "status newResponseWriter = None"
    by (simp add: newResponseWriter_def)
  from handleAuthCallback_state_mismatch[OF m fresh, of testEnv emptyWorld] m fresh
  show ?thesis by (simp add: newResponseWriter_def)
qed

text \<open>With the expected state the code exchange is the first thing that happens.\<close>

lemma handleAuthCallback_state_match_calls:
  assumes "FormValue r ''state'' = ''randomstate''"
  shows "\<exists>rest. providerCalls (fst (handleAuthCallback E s w r)) =
           providerCalls s @ ExchangeCall (FormValue r ''code'') # rest"
  using assms
  by (auto simp: handleAuthCallback_def callProvider_def Let_def
      split: sum.splits option.splits prod.splits)

text \<open>
  The existence check never answers yes: without a stored row it reports the identifier
  absent, and with one it reports an error.
\<close>

lemma DiscordUserExists_never_true: "fst (DiscordUserExists E st i) = False"
  by (simp add: DiscordUserExists_def QueryRowScan_def split: option.splits pgx_error.splits)

lemma DiscordUserExists_absent:
  assumes "dbFault E (SelectDiscordUser i) = None"
      and "list_all (\<lambda>row. Id (fst row) \<noteq> i) (discordUserTable st)"
  shows "DiscordUserExists E st i = (False, None)"
proof -
  from assms(2) have "filter (\<lambda>row. Id (fst row) = i) (discordUserTable st) = []"
    by (simp add: filter_empty_conv list_all_iff)
  with assms(1) show ?thesis
    by (simp add: DiscordUserExists_def QueryRowScan_def)
qed

lemma DiscordUserExists_stored:
  assumes "dbFault E (SelectDiscordUser i) = None"
      and "list_ex (\<lambda>row. Id (fst row) = i) (discordUserTable st)"
  shows "DiscordUserExists E st i =
           (False, Some ''number of field descriptions must equal number of destinations'')"
proof -
  from assms(2) have "filter (\<lambda>row. Id (fst row) = i) (discordUserTable st) \<noteq> []"
    by (simp add: filter_empty_conv list_ex_iff)
  with assms(1) show ?thesis
    by (simp add: DiscordUserExists_def QueryRowScan_def)
qed

text \<open>
  What the callback does after an existence check that returned an error, in general: the
  error is written as a 500 response, and the user is inserted all the same.
\<close>

lemma handleAuthCallback_check_error_inserts:
  assumes "FormValue r ''state'' = ''randomstate''"
      and "Exchange E (FormValue r ''code'') = Inr tok"
      and "ProfileGet E tok = Inr res" and "StatusCode res = 200"
      and "fst (DecodeDiscordUser E (ResBody res)) = Some user"
      and "DiscordUserExists E (db s) (Id user) = (False, Some err)"
      and "dbFault E (InsertDiscordUser user) = None"
      and "status w = None"
  shows "handleAuthCallback E s w r =
           (s\<lparr>db := (db s)\<lparr>discordUserTable := discordUserTable (db s) @ [(user, dbNow E)]\<rparr>,
              providerCalls := providerCalls s @ [ExchangeCall (FormValue r ''code''), ProfileCall tok]\<rparr>,
            w\<lparr>status := Some 500, written := written w @ [Bytes err]\<rparr>)"
  using assms
  by (simp add: handleAuthCallback_def callProvider_def
      CreateDiscordUser_def quickErr_def WriteHeader_def Write_def Let_def)

text \<open>
  What the callback does with a profile payload the decoder rejects, in general: the
  decoder's error is never looked at, and the user left behind by the decoder is checked
  and inserted like any other.
\<close>

lemma handleAuthCallback_decode_error_ignored:
  assumes "FormValue r ''state'' = ''randomstate''"
      and "Exchange E (FormValue r ''code'') = Inr tok"
      and "ProfileGet E tok = Inr res" and "StatusCode res = 200"
      and "DecodeDiscordUser E (ResBody res) = (Some user, Some decodeErr)"
      and "dbFault E (SelectDiscordUser (Id user)) = None"
      and "dbFault E (InsertDiscordUser user) = None"
      and "list_all (\<lambda>row. Id (fst row) \<noteq> Id user) (discordUserTable (db s))"
  shows "handleAuthCallback E s w r =
           (s\<lparr>db := (db s)\<lparr>discordUserTable := discordUserTable (db s) @ [(user, dbNow E)]\<rparr>,
              providerCalls := providerCalls s @ [ExchangeCall (FormValue r ''code''), ProfileCall tok]\<rparr>,
            w)"
  using assms(1-5,7) DiscordUserExists_absent[OF assms(6) assms(8)]
  by (simp add: handleAuthCallback_def callProvider_def CreateDiscordUser_def Let_def)

text \<open>
  A callback leaves the table as it was or appends one row; the table has no key, so it
  takes a row for an identifier it already holds.
\<close>

lemma handleAuthCallback_table:
  "discordUserTable (db (fst (handleAuthCallback E s w r))) = discordUserTable (db s)
   \<or> (\<exists>user. discordUserTable (db (fst (handleAuthCallback E s w r)))
                 = discordUserTable (db s) @ [(user, dbNow E)])"
  by (auto simp: handleAuthCallback_def callProvider_def CreateDiscordUser_def Let_def
      split: sum.splits option.splits prod.splits if_splits)

lemma CreateDiscordUser_accepts_duplicate:
  "list_ex (\<lambda>row. Id (fst row) = Id user42) (discordUserTable (db linkedWorld))
   \<and> CreateDiscordUser testEnv (db linkedWorld) user42 =
       ((db linkedWorld)\<lparr>discordUserTable := [(user42, 1600000000), (user42, 1700000000)]\<rparr>, None)"
  by (simp add: store_defs test_defs)

text \<open>
  A second login of a stored user, in general, on a database that does not fail: the
  existence check finds the row, which \<^verbatim>\<open>Scan()\<close> turns into an error; the callback
  answers 500 and appends a second row for the identifier.
\<close>

lemma handleAuthCallback_stored_user_duplicated:
  assumes "FormValue r ''state'' = ''randomstate''"
      and "Exchange E (FormValue r ''code'') = Inr tok"
      and "ProfileGet E tok = Inr res" and "StatusCode res = 200"
      and "fst (DecodeDiscordUser E (ResBody res)) = Some user"
      and "dbFault E (SelectDiscordUser (Id user)) = None"
      and "dbFault E (InsertDiscordUser user) = None"
      and "list_ex (\<lambda>row. Id (fst row) = Id user) (discordUserTable (db s))"
      and "status w = None"
  shows "handleAuthCallback E s w r =
           (s\<lparr>db := (db s)\<lparr>discordUserTable := discordUserTable (db s) @ [(user, dbNow E)]\<rparr>,
              providerCalls := providerCalls s @ [ExchangeCall (FormValue r ''code''), ProfileCall tok]\<rparr>,
            w\<lparr>status := Some 500,
               written := written w
                 @ [Bytes ''number of field descriptions must equal number of destinations'']\<rparr>)"
  using handleAuthCallback_check_error_inserts[OF assms(1-5)
      DiscordUserExists_stored[OF assms(6) assms(8)] assms(7) assms(9)] .

text \<open>
  C5. The claim is that an external identifier gets at most one record, the insert running
  only when the existence check reports the identifier absent. The run below is the second
  login of the user with identifier 42 on a database that does not fail: the table holds
  the user's row, the existence check returns an error instead of yes, the callback answers
  500 and inserts the user again. The table ends with two rows for the identifier 42.
\<close>

theorem handleAuthCallback_repeat_login_duplicates:
  "handleAuthCallback testEnv linkedWorld newResponseWriter
     (callback ''randomstate'' ''code42'') =
   (linkedWorld\<lparr>db := (db linkedWorld)\<lparr>discordUserTable :=
        [(user42, 1600000000), (user42, 1700000000)]\<rparr>,
      providerCalls := [ExchangeCall ''code42'', ProfileCall ''token42'']\<rparr>,
    \<lparr>status = Some 500, header = [],
     written = [Bytes ''number of field descriptions must equal number of destinations'']\<rparr>)"
  by (simp add: handler_defs http_defs store_defs test_defs)

text \<open>
  C6. The claim is that a failing step ends the callback with an error response and no
  record. The run below starts from an empty table; the existence query fails in the
  driver; the callback answers 500 with the driver's message, and the table holds the new
  record afterwards.
\<close>

theorem handleAuthCallback_error_response_and_insert:
  "handleAuthCallback selectFaultEnv emptyWorld newResponseWriter
     (callback ''randomstate'' ''code42'') =
   (emptyWorld\<lparr>db := (db emptyWorld)\<lparr>discordUserTable := [(user42, 1700000000)]\<rparr>,
      providerCalls := [ExchangeCall ''code42'', ProfileCall ''token42'']\<rparr>,
    \<lparr>status = Some 500, header = [], written = [Bytes ''conn closed'']\<rparr>)"
  by (simp add: handler_defs http_defs store_defs test_defs)

text \<open>
  C7. The claim is that a malformed profile payload ends the callback with a decode error
  before the existence check. In the run below the provider answers 200 with a body that
  is not JSON; the decoder reports an error and leaves the user empty; the callback writes
  no error (the response is left untouched, which the server sends as 200), runs the
  existence check for the empty identifier and inserts the empty user.
\<close>

theorem handleAuthCallback_malformed_profile_inserted:
  "DecodeDiscordUser testEnv ''<html>'' = (Some emptyUser, Some ''invalid character'')
   \<and> handleAuthCallback testEnv emptyWorld newResponseWriter
       (callback ''randomstate'' ''codeGarbled'') =
     (emptyWorld\<lparr>db := (db emptyWorld)\<lparr>discordUserTable := [(emptyUser, 1700000000)]\<rparr>,
        providerCalls := [ExchangeCall ''codeGarbled'', ProfileCall ''tokenGarbled'']\<rparr>,
      newResponseWriter)"
  by (simp add: handler_defs http_defs store_defs test_defs)

section \<open>Account routes\<close>

text \<open>
  C8, as stated, fails: the response of a successful creation does not hold the token. In
  the run below the account of Ada Lovelace is created; the handler returns no error, the
  token is printed to the standard output, the response body is the JSON of the stored
  account and nothing else, and the token occurs nowhere in the response.
\<close>

theorem handleCreateAccount_token_not_in_response:
  "snd (snd (handleCreateAccount testEnv emptyWorld newResponseWriter createRequest)) = None
   \<and> stdout (fst (handleCreateAccount testEnv emptyWorld newResponseWriter createRequest))
       = [LogJwtToken ''hs256.acct7.s3cret/hs256acct7'']
   \<and> written (fst (snd (handleCreateAccount testEnv emptyWorld newResponseWriter createRequest)))
       = [Json (JsonAccount \<lparr>ID = 1, FirstName = ''Ada'', LastName = ''Lovelace'', Number = 7,
            Balance = 0, CreatedAt = 1700000000\<rparr>)]
   \<and> \<not> carries (fst (snd (handleCreateAccount testEnv emptyWorld newResponseWriter createRequest)))
        ''hs256.acct7.s3cret/hs256acct7''"
  by (simp add: handler_defs http_defs store_defs test_defs jwt_defs carries_def Let_def)

text \<open>
  C8, amended. For every successful account-creation request (the body decodes to a
  request, the insert does not fail) on a fresh response: a token is minted for the new
  account and printed to the standard output; the response is 200 with a JSON body that is
  exactly the account as stored, whose identifier is the next serial value and whose
  account number is the one \<^verbatim>\<open>NewAccount\<close> assigned.
\<close>

theorem handleCreateAccount_success:
  fixes E s w r accRequest
  defines "account \<equiv> NewAccount E (ReqFirstName accRequest) (ReqLastName accRequest)"
  defines "dbAccount \<equiv> account\<lparr>ID := accountIdSeq (db s) + 1\<rparr>"
  assumes "DecodeCreateAccountRequest E (Body r) = (Some accRequest, None)"
      and "dbFault E (InsertAccount account) = None"
      and "status w = None"
  shows "\<exists>tokenStr. createJwt E account = Inr tokenStr
         \<and> handleCreateAccount E s w r =
             (s\<lparr>db := (db s)\<lparr>accountTable := accountTable (db s) @ [dbAccount],
                               accountIdSeq := accountIdSeq (db s) + 1\<rparr>,
                stdout := stdout s @ [LogJwtToken tokenStr]\<rparr>,
              w\<lparr>status := Some 200,
                 header := (''Content-Type'', ''application/json'')
                           # filter (\<lambda>kv. fst kv \<noteq> ''Content-Type'') (header w),
                 written := written w @ [Json (JsonAccount dbAccount)]\<rparr>,
              None)
         \<and> Number dbAccount = Number account"
proof -
  obtain tokenStr where t: "createJwt E account = Inr tokenStr"
    using createJwt_returns by blast
  show ?thesis
    using assms(3-5) t
    by (simp add: handleCreateAccount_def CreateAccount_def WriteJson_fresh println_def
        account_def[symmetric] dbAccount_def Let_def)
qed

theorem handleCreateAccount_success_witness:
  "DecodeCreateAccountRequest testEnv (Body createRequest)
     = (Some \<lparr>ReqFirstName = ''Ada'', ReqLastName = ''Lovelace''\<rparr>, None)
   \<and> dbFault testEnv (InsertAccount (testAccount ''Ada'' ''Lovelace'')) = None
   \<and> status newResponseWriter = None
   \<and> (\<exists>tokenStr. createJwt testEnv (testAccount ''Ada'' ''Lovelace'') = Inr tokenStr
        \<and> handleCreateAccount testEnv emptyWorld newResponseWriter createRequest =
            (\<lparr>db = \<lparr>accountTable = [(testAccount ''Ada'' ''Lovelace'')\<lparr>ID := 1\<rparr>],
                     accountIdSeq = 1, discordUserTable = []\<rparr>,
              stdout = [LogJwtToken tokenStr], providerCalls = [], panicked = False\<rparr>,
             \<lparr>status = Some 200, header = [(''Content-Type'', ''application/json'')],
              written = [Json (JsonAccount ((testAccount ''Ada'' ''Lovelace'')\<lparr>ID := 1\<rparr>))]\<rparr>,
             None))"
proof -
  have d: "DecodeCreateAccountRequest testEnv (Body createRequest)
     = (Some \<lparr>ReqFirstName = ''Ada'', ReqLastName = ''Lovelace''\<rparr>, None)"
    by (simp add: testEnv_def createRequest_def)
  have n: "NewAccount testEnv (ReqFirstName \<lparr>ReqFirstName = ''Ada'', ReqLastName = ''Lovelace''\<rparr>)
       (ReqLastName \<lparr>ReqFirstName = ''Ada'', ReqLastName = ''Lovelace''\<rparr>)
     = testAccount ''Ada'' ''Lovelace''"
    by (simp add: testEnv_def)
  have f: "dbFault testEnv (InsertAccount (testAccount ''Ada'' ''Lovelace'')) = None"
    by (simp add: testEnv_def)
  have fresh: "status newResponseWriter = None"
    by (simp add: newResponseWriter_def)
  from handleCreateAccount_success[OF d _ fresh, of emptyWorld] n f
  have "\<exists>tokenStr. createJwt testEnv (testAccount ''Ada'' ''Lovelace'') = Inr tokenStr
        \<and> handleCreateAccount testEnv emptyWorld newResponseWriter createRequest =
            (\<lparr>db = \<lparr>accountTable = [(testAccount ''Ada'' ''Lovelace'')\<lparr>ID := 1\<rparr>],
                     accountIdSeq = 1, discordUserTable = []\<rparr>,
              stdout = [LogJwtToken tokenStr], providerCalls = [], panicked = False\<rparr>,
             \<lparr>status = Some 200, header = [(''Content-Type'', ''application/json'')],
              written = [Json (JsonAccount ((testAccount ''Ada'' ''Lovelace'')\<lparr>ID := 1\<rparr>))]\<rparr>,
             None)"
    by (simp add: emptyWorld_def newResponseWriter_def)
  with d f fresh show ?thesis by (intro conjI)
qed

text \<open>
  C9. \<^verbatim>\<open>UpdateAccount\<close> returns no error and the store it leaves is the store it was
  given, for every account and every store: what is read afterwards is what was read
  before.
\<close>

theorem UpdateAccount_noop:
  "UpdateAccount E st account = (st, None)
   \<and> GetAccounts E (fst (UpdateAccount E st account)) = GetAccounts E st
   \<and> GetAccountById E (fst (UpdateAccount E st account)) i = GetAccountById E st i"
  by (simp add: UpdateAccount_def)

text \<open>
  C10, as stated, fails: not every identifier is answered 200. In the run below the token
  verifies, the path identifier 2147483648 parses, no account has it (there is none at
  all), and the database does not fail; the identifier does not fit the 32-bit \<^verbatim>\<open>id\<close>
  column, the driver refuses it, and the route answers 500.
\<close>

theorem delete_out_of_range_is_error:
  "validateJwt testEnv
     (HeaderGet
        (accountRequest ''DELETE'' [(''x-jwt-token'', ''hs256.acct7.s3cret/hs256acct7'')]
           ''2147483648'')
        ''x-jwt-token'') =
     Inr \<lparr>Raw = ''hs256.acct7.s3cret/hs256acct7'', Method = SigningMethodHMAC SHA256,
           Header = [(''typ'', JString ''JWT''), (''alg'', JString ''HS256'')],
           Claims = [(''expiresAt'', JNumber 15000), (''accountNumber'', JNumber 7)],
           Signature = ''s3cret/hs256acct7'', Valid = True\<rparr>
   \<and> Atoi ''2147483648'' = Inr 2147483648
   \<and> accountTable (db emptyWorld) = []
   \<and> dbFault testEnv (DeleteAccountById 2147483648) = None
   \<and> snd (routeAccountId testEnv emptyWorld newResponseWriter
        (accountRequest ''DELETE'' [(''x-jwt-token'', ''hs256.acct7.s3cret/hs256acct7'')]
           ''2147483648'')) =
       \<lparr>status = Some 500, header = [],
        written = [Bytes ''<h1>Error</h1><p>value out of range for int4</p>'']\<rparr>"
  by (simp add: handler_defs http_defs store_defs test_defs jwt_defs Let_def)

text \<open>
  C10, amended. A \<^verbatim>\<open>DELETE\<close> on the protected single-account route with a token that
  verifies and a path identifier that parses, on a fresh response and a database that does
  not fail: when the identifier fits the 32-bit \<^verbatim>\<open>id\<close> column the answer is 200 with the
  JSON body \<^verbatim>\<open>null\<close>, whether or not an account with that identifier exists (the rows
  with that identifier are gone, and when there was none the database is what it was);
  when the identifier does not fit, the answer is 500 and the database is what it was.
\<close>

theorem delete_missing_account_ok:
  assumes "validateJwt E (HeaderGet r ''x-jwt-token'') = Inr token"
      and "ReqMethod r = ''DELETE''"
      and "Atoi (PathValue r ''id'') = Inr i"
      and "dbFault E (DeleteAccountById i) = None"
      and "status w = None"
  shows "(fitsInt4 i \<longrightarrow>
            snd (routeAccountId E s w r) =
              w\<lparr>status := Some 200,
                 header := (''Content-Type'', ''application/json'')
                           # filter (\<lambda>kv. fst kv \<noteq> ''Content-Type'') (header w),
                 written := written w @ [Json JsonNull]\<rparr>
            \<and> accountTable (db (fst (routeAccountId E s w r))) =
                filter (\<lambda>a. ID a \<noteq> i) (accountTable (db s))
            \<and> (list_all (\<lambda>a. ID a \<noteq> i) (accountTable (db s)) \<longrightarrow>
                 db (fst (routeAccountId E s w r)) = db s))
       \<and> (\<not> fitsInt4 i \<longrightarrow>
            snd (routeAccountId E s w r) =
              w\<lparr>status := Some 500,
                 written := written w
                   @ [Bytes ''<h1>Error</h1><p>value out of range for int4</p>'']\<rparr>
            \<and> db (fst (routeAccountId E s w r)) = db s)"
proof -
  have v: "Valid token" using validateJwt_accepts[OF assms(1)] by simp
  have f: "list_all (\<lambda>a. ID a \<noteq> i) (accountTable (db s)) \<Longrightarrow>
      filter (\<lambda>a. ID a \<noteq> i) (accountTable (db s)) = accountTable (db s)"
    by (simp add: list_all_iff)
  have inside: "fitsInt4 i \<Longrightarrow>
      routeAccountId E s w r =
        ((println (println s (LogLine ''Calling JWTAuth middleware''))
            (LogFoundAccountNumber (map_of (Claims token) ''accountNumber'')))
           \<lparr>db := (db s)\<lparr>accountTable := filter (\<lambda>a. ID a \<noteq> i) (accountTable (db s))\<rparr>\<rparr>,
         w\<lparr>status := Some 200,
            header := (''Content-Type'', ''application/json'')
                      # filter (\<lambda>kv. fst kv \<noteq> ''Content-Type'') (header w),
            written := written w @ [Json JsonNull]\<rparr>)"
    using assms v
    by (simp add: routeAccountId_def withJwtAuth_def makeHttpHandleFunc_def handleOneAccount_def
        handleDeleteAccount_def DeleteAccount_def WriteJson_fresh println_def Let_def)
  have outside: "\<not> fitsInt4 i \<Longrightarrow>
      routeAccountId E s w r =
        ((println (println s (LogLine ''Calling JWTAuth middleware''))
            (LogFoundAccountNumber (map_of (Claims token) ''accountNumber'')))
           \<lparr>db := db s\<rparr>,
         w\<lparr>status := Some 500,
            written := written w
              @ [Bytes ''<h1>Error</h1><p>value out of range for int4</p>'']\<rparr>)"
    using assms v
    by (simp add: routeAccountId_def withJwtAuth_def makeHttpHandleFunc_def handleOneAccount_def
        handleDeleteAccount_def DeleteAccount_def WriteHtml_def WriteHeader_def Write_def
        println_def Let_def)
  show ?thesis
  proof (intro conjI impI)
    assume i: "fitsInt4 i"
    show "snd (routeAccountId E s w r) =
              w\<lparr>status := Some 200,
                 header := (''Content-Type'', ''application/json'')
                           # filter (\<lambda>kv. fst kv \<noteq> ''Content-Type'') (header w),
                 written := written w @ [Json JsonNull]\<rparr>"
      by (simp add: inside[OF i])
    show "accountTable (db (fst (routeAccountId E s w r))) =
                filter (\<lambda>a. ID a \<noteq> i) (accountTable (db s))"
      by (simp add: inside[OF i] println_def)
    assume "list_all (\<lambda>a. ID a \<noteq> i) (accountTable (db s))"
    then show "db (fst (routeAccountId E s w r)) = db s"
      using f by (simp add: inside[OF i] println_def)
  next
    assume o: "\<not> fitsInt4 i"
    show "snd (routeAccountId E s w r) =
              w\<lparr>status := Some 500,
                 written := written w
                   @ [Bytes ''<h1>Error</h1><p>value out of range for int4</p>'']\<rparr>"
      by (simp add: outside[OF o])
    show "db (fst (routeAccountId E s w r)) = db s"
      by (simp add: outside[OF o] println_def)
  qed
qed

text \<open>
  On the test environment, on a database with no accounts: the delete of account 99 is
  answered 200, and the delete of account 2147483648 is answered 500.
\<close>

theorem delete_missing_account_ok_witness:
  "validateJwt testEnv
     (HeaderGet (accountRequest ''DELETE'' [(''x-jwt-token'', ''hs256.acct7.s3cret/hs256acct7'')] ''99'')
        ''x-jwt-token'') =
     Inr \<lparr>Raw = ''hs256.acct7.s3cret/hs256acct7'', Method = SigningMethodHMAC SHA256,
           Header = [(''typ'', JString ''JWT''), (''alg'', JString ''HS256'')],
           Claims = [(''expiresAt'', JNumber 15000), (''accountNumber'', JNumber 7)],
           Signature = ''s3cret/hs256acct7'', Valid = True\<rparr>
   \<and> ReqMethod (accountRequest ''DELETE'' [(''x-jwt-token'', ''hs256.acct7.s3cret/hs256acct7'')] ''99'')
       = ''DELETE''
   \<and> Atoi (PathValue
        (accountRequest ''DELETE'' [(''x-jwt-token'', ''hs256.acct7.s3cret/hs256acct7'')] ''99'') ''id'')
       = Inr 99
   \<and> dbFault testEnv (DeleteAccountById 99) = None
   \<and> status newResponseWriter = None
   \<and> fitsInt4 99
   \<and> list_all (\<lambda>a. ID a \<noteq> 99) (accountTable (db emptyWorld))
   \<and> snd (routeAccountId testEnv emptyWorld newResponseWriter
        (accountRequest ''DELETE'' [(''x-jwt-token'', ''hs256.acct7.s3cret/hs256acct7'')] ''99'')) =
       \<lparr>status = Some 200, header = [(''Content-Type'', ''application/json'')],
        written = [Json JsonNull]\<rparr>
   \<and> db (fst (routeAccountId testEnv emptyWorld newResponseWriter
        (accountRequest ''DELETE'' [(''x-jwt-token'', ''hs256.acct7.s3cret/hs256acct7'')] ''99'')))
       = db emptyWorld
   \<and> Atoi (PathValue
        (accountRequest ''DELETE'' [(''x-jwt-token'', ''hs256.acct7.s3cret/hs256acct7'')]
           ''2147483648'') ''id'')
       = Inr 2147483648
   \<and> dbFault testEnv (DeleteAccountById 2147483648) = None
   \<and> \<not> fitsInt4 2147483648
   \<and> snd (routeAccountId testEnv emptyWorld newResponseWriter
        (accountRequest ''DELETE'' [(''x-jwt-token'', ''hs256.acct7.s3cret/hs256acct7'')]
           ''2147483648'')) =
       \<lparr>status = Some 500, header = [],
        written = [Bytes ''<h1>Error</h1><p>value out of range for int4</p>'']\<rparr>
   \<and> db (fst (routeAccountId testEnv emptyWorld newResponseWriter
        (accountRequest ''DELETE'' [(''x-jwt-token'', ''hs256.acct7.s3cret/hs256acct7'')]
           ''2147483648'')))
       = db emptyWorld"
proof -
  let ?r = "accountRequest ''DELETE'' [(''x-jwt-token'', ''hs256.acct7.s3cret/hs256acct7'')] ''99''"
  let ?big = "accountRequest ''DELETE'' [(''x-jwt-token'', ''hs256.acct7.s3cret/hs256acct7'')]
      ''2147483648''"
  let ?tok = "\<lparr>Raw = ''hs256.acct7.s3cret/hs256acct7'', Method = SigningMethodHMAC SHA256,
           Header = [(''typ'', JString ''JWT''), (''alg'', JString ''HS256'')],
           Claims = [(''expiresAt'', JNumber 15000), (''accountNumber'', JNumber 7)],
           Signature = ''s3cret/hs256acct7'', Valid = True\<rparr>"
  have good: "validateJwt testEnv (HeaderGet ?r ''x-jwt-token'') = Inr ?tok"
    by (simp add: jwt_defs test_defs HeaderGet_def)
  have good': "validateJwt testEnv (HeaderGet ?big ''x-jwt-token'') = Inr ?tok"
    by (simp add: jwt_defs test_defs HeaderGet_def)
  have m: "ReqMethod ?r = ''DELETE''"
    by (simp add: accountRequest_def)
  have m': "ReqMethod ?big = ''DELETE''"
    by (simp add: accountRequest_def)
  have a: "Atoi (PathValue ?r ''id'') = Inr 99"
    by (simp add: accountRequest_def PathValue_def Atoi_def isDigit_def digitVal_def)
  have a': "Atoi (PathValue ?big ''id'') = Inr 2147483648"
    by (simp add: accountRequest_def PathValue_def Atoi_def isDigit_def digitVal_def)
  have f: "dbFault testEnv (DeleteAccountById 99) = None"
    by (simp add: testEnv_def)
  have f': "dbFault testEnv (DeleteAccountById 2147483648) = None"
    by (simp add: testEnv_def)
  have fresh: "status newResponseWriter = None"
    by (simp add: newResponseWriter_def)
  have fits: "fitsInt4 99"
    by (simp add: fitsInt4_def)
  have fits': "\<not> fitsInt4 2147483648"
    by (simp add: fitsInt4_def)
  have none: "list_all (\<lambda>a. ID a \<noteq> 99) (accountTable (db emptyWorld))"
    by (simp add: emptyWorld_def)
  note d = delete_missing_account_ok[OF good m a f fresh, of emptyWorld]
  note d' = delete_missing_account_ok[OF good' m' a' f' fresh, of emptyWorld]
  from d fits have resp: "snd (routeAccountId testEnv emptyWorld newResponseWriter ?r) =
       \<lparr>status = Some 200, header = [(''Content-Type'', ''application/json'')],
        written = [Json JsonNull]\<rparr>"
    by (simp add: newResponseWriter_def)
  from d fits none have same: "db (fst (routeAccountId testEnv emptyWorld newResponseWriter ?r))
       = db emptyWorld"
    by blast
  from d' fits' have resp': "snd (routeAccountId testEnv emptyWorld newResponseWriter ?big) =
       \<lparr>status = Some 500, header = [],
        written = [Bytes ''<h1>Error</h1><p>value out of range for int4</p>'']\<rparr>"
    by (simp add: newResponseWriter_def)
  from d' fits' have same': "db (fst (routeAccountId testEnv emptyWorld newResponseWriter ?big))
       = db emptyWorld"
    by blast
  from good m a f fresh fits none resp same a' f' fits' resp' same'
  show ?thesis by (intro conjI)
qed

end
